theory Spec2Isabelle
  imports Main "HOL-Library.Word"
begin

unbundle bit_operations_syntax

section \<open>Administrator account security and the eligibility checker\<close>

text \<open>
  A shallow embedding of \<^verbatim>\<open>bl/services/administrator_service.py\<close> and
  \<^verbatim>\<open>bl/schemes/scheme_eligibilty_checker.py\<close>.

  Conventions.
  \<^item> A Python \<^verbatim>\<open>str\<close> is a \<open>string\<close> holding its UTF-8 bytes, so
    \<^verbatim>\<open>.encode('utf-8')\<close> is the identity and an f-string is \<open>@\<close>. A
    \<^verbatim>\<open>str\<close> that has no UTF-8 encoding (a lone surrogate) is outside the model.
  \<^item> A \<^verbatim>\<open>datetime\<close> is an \<open>int\<close>: microseconds since the epoch, in UTC
    (the resolution of Python's \<^verbatim>\<open>datetime\<close>); a \<^verbatim>\<open>timedelta\<close> is an
    \<open>int\<close> of microseconds. \<^verbatim>\<open>datetime.now(timezone.utc)\<close> is the argument \<open>now\<close>.
    The range limits of \<^verbatim>\<open>datetime\<close> and \<^verbatim>\<open>timedelta\<close> are not modelled.
  \<^item> A raised exception is \<open>Inl\<close> of the result, a returned value \<open>Inr\<close>.
  \<^item> The persistence collaborator is threaded through every call as a state.
  \<^item> A leading underscore of a Python name is written as the prefix \<open>priv_\<close>.
\<close>

subsection \<open>Password digests\<close>

text \<open>
  \<^verbatim>\<open>hashlib.sha256\<close> is a library function: it is the parameter \<open>sha256\<close> of
  the functions below, a function from byte strings to 256-bit digests.
  \<^verbatim>\<open>hexdigest()\<close> writes the digest as 64 lower-case hexadecimal digits, the most
  significant first.
\<close>

type_synonym digest = "256 word"

definition hex_digit :: "nat \<Rightarrow> char" where
  "hex_digit n = ''0123456789abcdef'' ! n"

definition hexdigest :: "digest \<Rightarrow> string" where
  "hexdigest d = map (\<lambda>i. hex_digit (unat (drop_bit (4 * i) d AND 15))) (rev [0..<64])"

text \<open>
  \<^verbatim>\<open>
  def hash_password(self, password: str, salt: str) -> str:
      return hashlib.sha256(f'{salt}:{password}'.encode('utf-8')).hexdigest()
  \<close>
\<close>

definition hash_password :: "(string \<Rightarrow> digest) \<Rightarrow> string \<Rightarrow> string \<Rightarrow> string" where
  "hash_password sha256 password slt = hexdigest (sha256 (slt @ '':'' @ password))"

text \<open>
  \<^verbatim>\<open>
  def verify_password(self, stored_password_hash, provided_password, salt) -> bool:
      return stored_password_hash == self.hash_password(provided_password, salt)
  \<close>
\<close>

definition verify_password :: "(string \<Rightarrow> digest) \<Rightarrow> string \<Rightarrow> string \<Rightarrow> string \<Rightarrow> bool" where
  "verify_password sha256 stored_password_hash provided_password slt \<longleftrightarrow>
     stored_password_hash = hash_password sha256 provided_password slt"

subsection \<open>The administrator record and the persistence collaborator\<close>

text \<open>
  \<^verbatim>\<open>dal.models.Administrator\<close>, with the fields the specification lists. The
  primary key \<^verbatim>\<open>id\<close> is written \<open>id'\<close>.
\<close>

type_synonym timestamp = int

record Administrator =
  id' :: int
  username :: string
  password_hash :: string
  salt :: string
  account_locked :: bool
  consecutive_failed_logins :: int
  failed_login_starttime :: "timestamp option"

datatype lookup_key = ById int | ByUsername string

datatype exn =
    AdministratorNotFoundException lookup_key
  | InvalidAdministratorDataException string
  | KeyError string

text \<open>
  The \<^verbatim>\<open>update_data\<close> dictionaries the service builds have keys among
  \<^verbatim>\<open>consecutive_failed_logins\<close>, \<^verbatim>\<open>failed_login_starttime\<close> and
  \<^verbatim>\<open>account_locked\<close>: a field of the record is \<open>None\<close> when the key is absent,
  and \<open>Some v\<close> when the dictionary maps the key to \<open>v\<close> (so
  \<^verbatim>\<open>"failed_login_starttime": None\<close> is \<open>Some None\<close>).
\<close>

record update_data =
  ud_consecutive_failed_logins :: "int option"
  ud_failed_login_starttime :: "timestamp option option"
  ud_account_locked :: "bool option"

text \<open>
  The persistence collaborator \<^verbatim>\<open>dal.crud_operations.CRUDOperations\<close>: the
  administrator rows, and a log of every call made to it, in order.
\<close>

datatype crud_call =
    GetAdministrator int
  | GetAdministratorByUsername string
  | CreateAdministrator string string string
  | UpdateAdministrator int update_data

record CRUDOperations =
  administrators :: "Administrator list"
  calls :: "crud_call list"

text \<open>
  Modelled from the spec: \<^verbatim>\<open>CRUDOperations.get_administrator\<close> is not part of the
  sources at hand. The specification gives it as \<open>get_administrator(id) -> Administrator\<close>;
  the service tests its result with \<^verbatim>\<open>if not admin\<close>, so an absent row is \<open>None\<close>.
\<close>

definition crud_get_administrator ::
  "int \<Rightarrow> CRUDOperations \<Rightarrow> Administrator option \<times> CRUDOperations" where
  "crud_get_administrator aid db =
     (find (\<lambda>a. id' a = aid) (administrators db),
      db\<lparr>calls := calls db @ [GetAdministrator aid]\<rparr>)"

text \<open>
  Modelled from the spec: \<^verbatim>\<open>CRUDOperations.get_administrator_by_username\<close> is not
  part of the sources at hand; the specification gives it as
  \<open>get_administrator_by_username(name) -> Administrator | none\<close>.
\<close>

definition crud_get_administrator_by_username ::
  "string \<Rightarrow> CRUDOperations \<Rightarrow> Administrator option \<times> CRUDOperations" where
  "crud_get_administrator_by_username name db =
     (find (\<lambda>a. username a = name) (administrators db),
      db\<lparr>calls := calls db @ [GetAdministratorByUsername name]\<rparr>)"

text \<open>
  Modelled from the spec: \<^verbatim>\<open>CRUDOperations.create_administrator\<close> is not part of
  the sources at hand; the specification gives it as
  \<open>create_administrator(username, password_hash, salt) -> Administrator\<close>. The new row
  gets a fresh identifier, is unlocked and has zeroed failure counters.
\<close>

definition crud_create_administrator ::
  "string \<Rightarrow> string \<Rightarrow> string \<Rightarrow> CRUDOperations \<Rightarrow> (exn + Administrator) \<times> CRUDOperations" where
  "crud_create_administrator name pwhash slt db =
     (let admin = \<lparr>id' = fold max (map id' (administrators db)) 0 + 1,
                    username = name, password_hash = pwhash, salt = slt,
                    account_locked = False, consecutive_failed_logins = 0,
                    failed_login_starttime = None\<rparr>
      in (Inr admin,
          db\<lparr>administrators := administrators db @ [admin],
             calls := calls db @ [CreateAdministrator name pwhash slt]\<rparr>))"

text \<open>
  Modelled from the spec: \<^verbatim>\<open>CRUDOperations.update_administrator\<close> is not part of
  the sources at hand; the specification gives it as
  \<open>update_administrator(id, partial_fields) -> Administrator\<close>, one write of the fields
  named in \<open>partial_fields\<close> and of no other. An absent row fails with the not-found
  kind and writes nothing.
\<close>

definition apply_update :: "update_data \<Rightarrow> Administrator \<Rightarrow> Administrator" where
  "apply_update ud a =
     a\<lparr>consecutive_failed_logins :=
         (case ud_consecutive_failed_logins ud of None \<Rightarrow> consecutive_failed_logins a | Some c \<Rightarrow> c),
       failed_login_starttime :=
         (case ud_failed_login_starttime ud of None \<Rightarrow> failed_login_starttime a | Some t \<Rightarrow> t),
       account_locked :=
         (case ud_account_locked ud of None \<Rightarrow> account_locked a | Some l \<Rightarrow> l)\<rparr>"

fun update_row :: "int \<Rightarrow> update_data \<Rightarrow> Administrator list \<Rightarrow> Administrator list" where
  "update_row aid ud [] = []"
| "update_row aid ud (a # rows) =
     (if id' a = aid then apply_update ud a # rows else a # update_row aid ud rows)"

definition crud_update_administrator ::
  "int \<Rightarrow> update_data \<Rightarrow> CRUDOperations \<Rightarrow> (exn + Administrator) \<times> CRUDOperations" where
  "crud_update_administrator aid ud db =
     (let db' = db\<lparr>calls := calls db @ [UpdateAdministrator aid ud]\<rparr>
      in case find (\<lambda>a. id' a = aid) (administrators db) of
           None \<Rightarrow> (Inl (AdministratorNotFoundException (ById aid)), db')
         | Some a \<Rightarrow>
             (Inr (apply_update ud a),
              db'\<lparr>administrators := update_row aid ud (administrators db)\<rparr>))"

subsection \<open>AdministratorService\<close>

text \<open>
  The configuration read from the environment: \<^verbatim>\<open>MAX_PASSWORD_RETRIES\<close> (default 5)
  and \<^verbatim>\<open>PASSWORD_RETRIES_TIME_WINDOW_MINUTES\<close> (default 10), both \<^verbatim>\<open>int(...)\<close> of
  a string, so any integer.
\<close>

record AdministratorService =
  MAX_PASSWORD_RETRIES :: int
  PASSWORD_RETRIES_TIME_WINDOW_MINUTES :: int

definition timedelta_minutes :: "int \<Rightarrow> int" where
  "timedelta_minutes m = m * 60000000"

text \<open>
  \<^verbatim>\<open>
  def _get_admin_by_id(self, admin_id):
      admin = self.crud_operations.get_administrator(admin_id)
      if not admin:
          raise AdministratorNotFoundException(...)
      return admin
  \<close>
\<close>

definition priv_get_admin_by_id ::
  "int \<Rightarrow> CRUDOperations \<Rightarrow> (exn + Administrator) \<times> CRUDOperations" where
  "priv_get_admin_by_id aid db =
     (case crud_get_administrator aid db of
        (None, db') \<Rightarrow> (Inl (AdministratorNotFoundException (ById aid)), db')
      | (Some admin, db') \<Rightarrow> (Inr admin, db'))"

definition priv_get_admin_by_username ::
  "string \<Rightarrow> CRUDOperations \<Rightarrow> (exn + Administrator) \<times> CRUDOperations" where
  "priv_get_admin_by_username name db =
     (case crud_get_administrator_by_username name db of
        (None, db') \<Rightarrow> (Inl (AdministratorNotFoundException (ByUsername name)), db')
      | (Some admin, db') \<Rightarrow> (Inr admin, db'))"

text \<open>
  \<^verbatim>\<open>
  def increment_login_failure_counter(self, admin_id):
      admin = self._get_admin_by_id(admin_id)
      current_time = datetime.now(timezone.utc)
      current_count = admin.consecutive_failed_logins
      time_window = timedelta(minutes=self.PASSWORD_RETRIES_TIME_WINDOW_MINUTES)
      if admin.failed_login_starttime:
          admin.failed_login_starttime = admin.failed_login_starttime.replace(tzinfo=timezone.utc)
          time_since_first_failure = current_time - admin.failed_login_starttime
          if time_since_first_failure > time_window:
              update_data = {"consecutive_failed_logins": 1,
                             "failed_login_starttime": current_time}
          else:
              current_count += 1
              update_data = {"consecutive_failed_logins": current_count}
      else:
          update_data = {"consecutive_failed_logins": 1,
                         "failed_login_starttime": current_time}
      if current_count >= self.MAX_PASSWORD_RETRIES:
          update_data["account_locked"] = True
      self.crud_operations.update_administrator(admin_id, update_data)
  \<close>
  A \<^verbatim>\<open>datetime\<close> is always truthy, so the outer test is a test for \<^verbatim>\<open>None\<close>.
  The pair \<open>(update_data, current_count)\<close> is the value of the two variables after the
  branches: only the branch inside the window assigns \<^verbatim>\<open>current_count\<close>.
\<close>

definition increment_login_failure_counter ::
  "AdministratorService \<Rightarrow> timestamp \<Rightarrow> int \<Rightarrow> CRUDOperations \<Rightarrow> (exn + unit) \<times> CRUDOperations" where
  "increment_login_failure_counter self now aid db =
     (case priv_get_admin_by_id aid db of
        (Inl e, db1) \<Rightarrow> (Inl e, db1)
      | (Inr admin, db1) \<Rightarrow>
          (let current_time = now;
               current_count = consecutive_failed_logins admin;
               time_window = timedelta_minutes (PASSWORD_RETRIES_TIME_WINDOW_MINUTES self);
               (update_data, current_count) =
                 (case failed_login_starttime admin of
                    Some starttime \<Rightarrow>
                      (let time_since_first_failure = current_time - starttime
                       in if time_since_first_failure > time_window
                          then (\<lparr>ud_consecutive_failed_logins = Some 1,
                                 ud_failed_login_starttime = Some (Some current_time),
                                 ud_account_locked = None\<rparr>, current_count)
                          else (\<lparr>ud_consecutive_failed_logins = Some (current_count + 1),
                                 ud_failed_login_starttime = None,
                                 ud_account_locked = None\<rparr>, current_count + 1))
                  | None \<Rightarrow>
                      (\<lparr>ud_consecutive_failed_logins = Some 1,
                        ud_failed_login_starttime = Some (Some current_time),
                        ud_account_locked = None\<rparr>, current_count));
               update_data =
                 (if current_count \<ge> MAX_PASSWORD_RETRIES self
                  then update_data\<lparr>ud_account_locked := Some True\<rparr>
                  else update_data)
           in case crud_update_administrator aid update_data db1 of
                (Inl e, db2) \<Rightarrow> (Inl e, db2)
              | (Inr _, db2) \<Rightarrow> (Inr (), db2)))"

text \<open>
  \<^verbatim>\<open>
  def reset_login_failure_counters(self, admin_id):
      update_data = {"consecutive_failed_logins": 0, "failed_login_starttime": None}
      self.crud_operations.update_administrator(admin_id, update_data)
  \<close>
\<close>

definition reset_login_failure_counters ::
  "int \<Rightarrow> CRUDOperations \<Rightarrow> (exn + unit) \<times> CRUDOperations" where
  "reset_login_failure_counters aid db =
     (let update_data = \<lparr>ud_consecutive_failed_logins = Some 0,
                          ud_failed_login_starttime = Some None,
                          ud_account_locked = None\<rparr>
      in case crud_update_administrator aid update_data db of
           (Inl e, db1) \<Rightarrow> (Inl e, db1)
         | (Inr _, db1) \<Rightarrow> (Inr (), db1))"

text \<open>
  \<^verbatim>\<open>
  def unlock_administrator_account(self, admin_id):
      self._get_admin_by_id(admin_id)
      update_data = {"account_locked": False, "consecutive_failed_logins": 0,
                     "failed_login_starttime": None}
      self.crud_operations.update_administrator(admin_id, update_data)
  \<close>
\<close>

definition unlock_administrator_account ::
  "int \<Rightarrow> CRUDOperations \<Rightarrow> (exn + unit) \<times> CRUDOperations" where
  "unlock_administrator_account aid db =
     (case priv_get_admin_by_id aid db of
        (Inl e, db1) \<Rightarrow> (Inl e, db1)
      | (Inr _, db1) \<Rightarrow>
          (let update_data = \<lparr>ud_consecutive_failed_logins = Some 0,
                               ud_failed_login_starttime = Some None,
                               ud_account_locked = Some False\<rparr>
           in case crud_update_administrator aid update_data db1 of
                (Inl e, db2) \<Rightarrow> (Inl e, db2)
              | (Inr _, db2) \<Rightarrow> (Inr (), db2)))"

text \<open>
  \<^verbatim>\<open>
  def verify_login_credentials(self, username, password):
      admin = self._get_admin_by_username(username)
      if admin and not admin.account_locked:
          if self.verify_password(admin.password_hash, password, admin.salt):
              self.reset_login_failure_counters(admin.id)
              return admin
          else:
              self.increment_login_failure_counter(admin.id)
      return None
  \<close>
  \<^verbatim>\<open>_get_admin_by_username\<close> returns a row or raises, so \<^verbatim>\<open>admin\<close> is truthy
  when the test is reached. The administrator returned is the snapshot read at the start.
\<close>

definition verify_login_credentials ::
  "AdministratorService \<Rightarrow> (string \<Rightarrow> digest) \<Rightarrow> timestamp \<Rightarrow> string \<Rightarrow> string \<Rightarrow> CRUDOperations
     \<Rightarrow> (exn + Administrator option) \<times> CRUDOperations" where
  "verify_login_credentials self sha256 now name password db =
     (case priv_get_admin_by_username name db of
        (Inl e, db1) \<Rightarrow> (Inl e, db1)
      | (Inr admin, db1) \<Rightarrow>
          if \<not> account_locked admin then
            if verify_password sha256 (password_hash admin) password (salt admin) then
              (case reset_login_failure_counters (id' admin) db1 of
                 (Inl e, db2) \<Rightarrow> (Inl e, db2)
               | (Inr _, db2) \<Rightarrow> (Inr (Some admin), db2))
            else
              (case increment_login_failure_counter self now (id' admin) db1 of
                 (Inl e, db2) \<Rightarrow> (Inl e, db2)
               | (Inr _, db2) \<Rightarrow> (Inr None, db2))
          else (Inr None, db1))"

text \<open>
  \<^verbatim>\<open>
  def create_administrator(self, admin_data: dict):
      salt = os.urandom(16).hex()
      raw_password = admin_data["password_hash"]
      password_hash = self.hash_password(raw_password, salt)
      admin_data["password_hash"] = password_hash
      admin_data["salt"] = salt
      isValid, msg = validate_administrator_data(admin_data, True)
      if not isValid:
          raise InvalidAdministratorDataException(msg)
      return self.crud_operations.create_administrator(admin_data["username"], password_hash, salt)
  \<close>
  \<^verbatim>\<open>admin_data\<close> is a dictionary from field names to strings; a missing key raises
  \<^verbatim>\<open>KeyError\<close>. The value \<^verbatim>\<open>os.urandom(16).hex()\<close> returns is the argument
  \<open>urandom_hex\<close>. \<^verbatim>\<open>utils.data_validation.validate_administrator_data\<close> is not part of
  the sources at hand: it is the parameter of the same name.
\<close>

definition create_administrator ::
  "(string \<Rightarrow> digest) \<Rightarrow> ((string \<rightharpoonup> string) \<Rightarrow> bool \<Rightarrow> bool \<times> string) \<Rightarrow> string
     \<Rightarrow> (string \<rightharpoonup> string) \<Rightarrow> CRUDOperations \<Rightarrow> (exn + Administrator) \<times> CRUDOperations" where
  "create_administrator sha256 validate_administrator_data urandom_hex admin_data db =
     (let slt = urandom_hex
      in case admin_data ''password_hash'' of
           None \<Rightarrow> (Inl (KeyError ''password_hash''), db)
         | Some raw_password \<Rightarrow>
             (let pwhash = hash_password sha256 raw_password slt;
                  admin_data = admin_data(''password_hash'' \<mapsto> pwhash);
                  admin_data = admin_data(''salt'' \<mapsto> slt);
                  (isValid, msg) = validate_administrator_data admin_data True
              in if \<not> isValid then (Inl (InvalidAdministratorDataException msg), db)
                 else case admin_data ''username'' of
                        None \<Rightarrow> (Inl (KeyError ''username''), db)
                      | Some name \<Rightarrow> crud_create_administrator name pwhash slt db))"

text \<open>
  A run of failed logins: \<^verbatim>\<open>increment_login_failure_counter\<close> called once at each
  of the given times, in order.
\<close>

fun failed_logins ::
  "AdministratorService \<Rightarrow> int \<Rightarrow> timestamp list \<Rightarrow> CRUDOperations \<Rightarrow> CRUDOperations" where
  "failed_logins self aid [] db = db"
| "failed_logins self aid (t # ts) db =
     failed_logins self aid ts (snd (increment_login_failure_counter self t aid db))"

subsection \<open>SchemeEligibilityChecker\<close>

text \<open>
  \<^verbatim>\<open>bl.schemes.base_eligibility.BaseEligibility\<close> is the abstract strategy: its two
  methods are the fields of a record. A method reads the applicant, may read and write a
  world \<open>'w\<close> of its own, and returns a value or raises an exception of type \<open>'e\<close>.
\<close>

record ('a, 'b, 'e, 'w) BaseEligibility =
  check_eligibility :: "'a \<Rightarrow> 'w \<Rightarrow> ('e + bool \<times> string) \<times> 'w"
  calculate_benefits :: "'a \<Rightarrow> 'w \<Rightarrow> ('e + 'b list) \<times> 'w"

record ('s, 'a, 'b, 'e, 'w) SchemeEligibilityChecker =
  scheme :: 's
  eligibility_definition :: "('a, 'b, 'e, 'w) BaseEligibility"

text \<open>
  \<^verbatim>\<open>
  def _check_eligibility(self, applicant):
      is_eligible, message = self.eligibility_definition.check_eligibility(applicant)
      return is_eligible, message
  \<close>
\<close>

definition priv_check_eligibility ::
  "('s, 'a, 'b, 'e, 'w) SchemeEligibilityChecker \<Rightarrow> 'a \<Rightarrow> 'w \<Rightarrow> ('e + bool \<times> string) \<times> 'w" where
  "priv_check_eligibility self applicant w =
     (case check_eligibility (eligibility_definition self) applicant w of
        (Inl e, w1) \<Rightarrow> (Inl e, w1)
      | (Inr (is_eligible, message), w1) \<Rightarrow> (Inr (is_eligible, message), w1))"

text \<open>
  \<^verbatim>\<open>
  def _calculate_benefits(self, applicant):
      if self._check_eligibility(applicant)[0]:
          return self.eligibility_definition.calculate_benefits(applicant)
      return []
  \<close>
\<close>

definition priv_calculate_benefits ::
  "('s, 'a, 'b, 'e, 'w) SchemeEligibilityChecker \<Rightarrow> 'a \<Rightarrow> 'w \<Rightarrow> ('e + 'b list) \<times> 'w" where
  "priv_calculate_benefits self applicant w =
     (case priv_check_eligibility self applicant w of
        (Inl e, w1) \<Rightarrow> (Inl e, w1)
      | (Inr verdict, w1) \<Rightarrow>
          if fst verdict
          then calculate_benefits (eligibility_definition self) applicant w1
          else (Inr [], w1))"

text \<open>
  A spy on a strategy: the same two methods, each also appending the call made to a log
  kept beside the strategy's world.
\<close>

datatype 'a strategy_call = CheckEligibility 'a | CalculateBenefits 'a

definition spy ::
  "('a, 'b, 'e, 'w) BaseEligibility \<Rightarrow> ('a, 'b, 'e, 'w \<times> 'a strategy_call list) BaseEligibility" where
  "spy strategy =
     \<lparr>check_eligibility = (\<lambda>applicant (w, log).
         case check_eligibility strategy applicant w of
           (r, w1) \<Rightarrow> (r, (w1, log @ [CheckEligibility applicant]))),
      calculate_benefits = (\<lambda>applicant (w, log).
         case calculate_benefits strategy applicant w of
           (r, w1) \<Rightarrow> (r, (w1, log @ [CalculateBenefits applicant])))\<rparr>"

text \<open>The verdict of \<^verbatim>\<open>check_eligibility\<close> is "eligible".\<close>

definition returns_eligible :: "('e + bool \<times> string) \<Rightarrow> bool" where
  "returns_eligible r = (case r of Inl e \<Rightarrow> False | Inr (is_eligible, message) \<Rightarrow> is_eligible)"

subsection \<open>Example data\<close>

text \<open>
  Three administrators: \<open>alice\<close> has zeroed counters, \<open>bob\<close> is locked, \<open>carol\<close>
  has an open failure window that started one second after the epoch. Two configurations:
  the default one, and one that locks at the first failure.
\<close>

definition alice :: Administrator where
  "alice = \<lparr>id' = 1, username = ''alice'', password_hash = ''5e884898da28'', salt = ''00ff'',
             account_locked = False, consecutive_failed_logins = 0,
             failed_login_starttime = None\<rparr>"

definition bob :: Administrator where
  "bob = \<lparr>id' = 2, username = ''bob'', password_hash = ''2bb80d537b1d'', salt = ''a1b2'',
           account_locked = True, consecutive_failed_logins = 5,
           failed_login_starttime = Some 1000000\<rparr>"

definition carol :: Administrator where
  "carol = \<lparr>id' = 3, username = ''carol'', password_hash = ''9f86d081884c'', salt = ''c3d4'',
             account_locked = False, consecutive_failed_logins = 2,
             failed_login_starttime = Some 1000000\<rparr>"

definition example_db :: CRUDOperations where
  "example_db = \<lparr>administrators = [alice, bob, carol], calls = []\<rparr>"

definition default_service :: AdministratorService where
  "default_service = \<lparr>MAX_PASSWORD_RETRIES = 5, PASSWORD_RETRIES_TIME_WINDOW_MINUTES = 10\<rparr>"

definition strict_service :: AdministratorService where
  "strict_service = \<lparr>MAX_PASSWORD_RETRIES = 1, PASSWORD_RETRIES_TIME_WINDOW_MINUTES = 10\<rparr>"

subsection \<open>The invariant of the failure counters\<close>

text \<open>
  The data model's invariant on one administrator: a positive counter has a start time.
\<close>

definition counters_consistent :: "Administrator \<Rightarrow> bool" where
  "counters_consistent a \<longleftrightarrow>
     (consecutive_failed_logins a > 0 \<longrightarrow> failed_login_starttime a \<noteq> None)"

text \<open>An update resets the counter to 0 exactly when it clears the start time.\<close>

definition resets_together :: "update_data \<Rightarrow> bool" where
  "resets_together ud \<longleftrightarrow>
     (ud_consecutive_failed_logins ud = Some 0) = (ud_failed_login_starttime ud = Some None)"

fun updates_of :: "crud_call list \<Rightarrow> update_data list" where
  "updates_of [] = []"
| "updates_of (UpdateAdministrator aid ud # cs) = ud # updates_of cs"
| "updates_of (c # cs) = updates_of cs"

text \<open>The calls made to the persistence layer between the states \<open>db\<close> and \<open>db'\<close>.\<close>

definition new_calls :: "CRUDOperations \<Rightarrow> CRUDOperations \<Rightarrow> crud_call list" where
  "new_calls db db' = drop (length (calls db)) (calls db')"

text \<open>
  What an operation that leads from \<open>db\<close> to \<open>db'\<close> has to keep: the invariant of
  every row; and, counters being counts (never negative), that they stay so and that
  every update it made resets both fields or neither.
\<close>

definition preserves_counter_invariant :: "CRUDOperations \<Rightarrow> CRUDOperations \<Rightarrow> bool" where
  "preserves_counter_invariant db db' \<longleftrightarrow>
     (list_all counters_consistent (administrators db)
        \<longrightarrow> list_all counters_consistent (administrators db'))
     \<and> (list_all (\<lambda>a. 0 \<le> consecutive_failed_logins a) (administrators db)
        \<longrightarrow> list_all (\<lambda>a. 0 \<le> consecutive_failed_logins a) (administrators db')
            \<and> list_all resets_together (updates_of (new_calls db db')))"

subsection \<open>An example strategy and an example validator\<close>

text \<open>
  A strategy that requires an income below 2000; its \<open>calculate_benefits\<close> counts its
  calls in the world. A validator that requires a non-empty username. Both serve as
  concrete inputs only.
\<close>

definition income_below_2000 :: "(int, string \<times> int, unit, nat) BaseEligibility" where
  "income_below_2000 =
     \<lparr>check_eligibility = (\<lambda>income w. (Inr (income < 2000, ''income''), w)),
      calculate_benefits = (\<lambda>income w. (Inr [(''grant'', 500)], Suc w))\<rparr>"

definition requires_username :: "(string \<rightharpoonup> string) \<Rightarrow> bool \<Rightarrow> bool \<times> string" where
  "requires_username admin_data for_create_mode =
     (case admin_data ''username'' of
        None \<Rightarrow> (False, ''username is required'')
      | Some name \<Rightarrow> if name = [] then (False, ''username is empty'') else (True, []))"

section \<open>Properties of the password digests\<close>







text \<open>
  C10: two (password, salt) pairs whose strings \<open>salt:password\<close> are equal have the
  same digest, whatever the digest function. Salt \<open>a\<close> with password \<open>b:c\<close> and salt
  \<open>a:b\<close> with password \<open>c\<close> are such pairs, and they are distinct: the digest stored
  for the first is accepted by \<open>verify_password\<close> for the password \<open>c\<close> under the
  salt \<open>a:b\<close>.
\<close>

theorem hash_password_separator_collision:
  "(s @ '':'' @ p = s' @ '':'' @ p' \<longrightarrow>
      hash_password sha256 p s = hash_password sha256 p' s'
      \<and> verify_password sha256 (hash_password sha256 p s) p' s')
   \<and> (''b:c'', ''a'') \<noteq> (''c'', ''a:b'')
   \<and> ''c'' \<noteq> ''b:c''
   \<and> hash_password sha256 ''b:c'' ''a'' = hash_password sha256 ''c'' ''a:b''
   \<and> verify_password sha256 (hash_password sha256 ''b:c'' ''a'') ''c'' ''a:b''"
  by (simp add: hash_password_def verify_password_def)

theorem hash_password_separator_collision_witness:
  "\<forall>sha256 :: string \<Rightarrow> digest.
     ''a'' @ '':'' @ ''b:c'' = ''a:b'' @ '':'' @ ''c''
     \<and> hash_password sha256 ''b:c'' ''a'' = hash_password sha256 ''c'' ''a:b''
     \<and> verify_password sha256 (hash_password sha256 ''b:c'' ''a'') ''c'' ''a:b''"
proof
  fix sha256 :: "string \<Rightarrow> digest"
  have e: "''a'' @ '':'' @ ''b:c'' = ''a:b'' @ '':'' @ ''c''" by simp
  from hash_password_separator_collision [of "''a''" "''b:c''" "''a:b''" "''c''" sha256] e
  show "''a'' @ '':'' @ ''b:c'' = ''a:b'' @ '':'' @ ''c''
     \<and> hash_password sha256 ''b:c'' ''a'' = hash_password sha256 ''c'' ''a:b''
     \<and> verify_password sha256 (hash_password sha256 ''b:c'' ''a'') ''c'' ''a:b''"
    by blast
qed

section \<open>Properties of the failed-login policy\<close>

lemma id_apply_update [simp]: "id' (apply_update ud a) = id' a"
  by (simp add: apply_update_def)

text \<open>An update rewrites the first row with the identifier, in place.\<close>

lemma update_row_split:
  assumes "find (\<lambda>a. id' a = aid) rows = Some admin"
  shows "\<exists>pre post. rows = pre @ admin # post
           \<and> update_row aid ud rows = pre @ apply_update ud admin # post"
  using assms
proof (induction rows)
  case Nil
  then show ?case by simp
next
  case (Cons a rows)
  show ?case
  proof (cases "id' a = aid")
    case True
    with Cons.prems have "a = admin" by simp
    with True have "a # rows = [] @ admin # rows
        \<and> update_row aid ud (a # rows) = [] @ apply_update ud admin # rows"
      by simp
    then show ?thesis by blast
  next
    case False
    with Cons.prems have "find (\<lambda>a. id' a = aid) rows = Some admin" by simp
    from Cons.IH [OF this] obtain pre post where
      "rows = pre @ admin # post" "update_row aid ud rows = pre @ apply_update ud admin # post"
      by blast
    with False have "a # rows = (a # pre) @ admin # post
        \<and> update_row aid ud (a # rows) = (a # pre) @ apply_update ud admin # post"
      by simp
    then show ?thesis by blast
  qed
qed

lemma find_update_row:
  "find (\<lambda>a. id' a = aid) (update_row aid ud rows)
     = map_option (apply_update ud) (find (\<lambda>a. id' a = aid) rows)"
  by (induction rows) simp_all

text \<open>
  What \<open>increment_login_failure_counter\<close> does for an administrator that exists: one
  read, one update. \<open>fresh\<close> says that a new window starts.
\<close>

lemma increment_found:
  assumes "find (\<lambda>a. id' a = aid) (administrators db) = Some admin"
  shows "increment_login_failure_counter self now aid db =
     (let fresh = (case failed_login_starttime admin of None \<Rightarrow> True
                    | Some t \<Rightarrow> now - t > timedelta_minutes (PASSWORD_RETRIES_TIME_WINDOW_MINUTES self));
          current_count = (if fresh then consecutive_failed_logins admin
                           else consecutive_failed_logins admin + 1);
          ud = \<lparr>ud_consecutive_failed_logins = Some (if fresh then 1 else current_count),
                ud_failed_login_starttime = (if fresh then Some (Some now) else None),
                ud_account_locked =
                  (if current_count \<ge> MAX_PASSWORD_RETRIES self then Some True else None)\<rparr>
      in (Inr (), db\<lparr>calls := calls db @ [GetAdministrator aid, UpdateAdministrator aid ud],
                     administrators := update_row aid ud (administrators db)\<rparr>))"
  using assms
  by (auto simp: increment_login_failure_counter_def priv_get_admin_by_id_def
      crud_get_administrator_def crud_update_administrator_def Let_def split: option.splits)

lemma reset_found:
  assumes "find (\<lambda>a. id' a = aid) (administrators db) = Some admin"
  shows "reset_login_failure_counters aid db =
     (Inr (), db\<lparr>calls := calls db @ [UpdateAdministrator aid
                      \<lparr>ud_consecutive_failed_logins = Some 0, ud_failed_login_starttime = Some None,
                       ud_account_locked = None\<rparr>],
                  administrators := update_row aid
                      \<lparr>ud_consecutive_failed_logins = Some 0, ud_failed_login_starttime = Some None,
                       ud_account_locked = None\<rparr> (administrators db)\<rparr>)"
  using assms
  by (simp add: reset_login_failure_counters_def crud_update_administrator_def Let_def)

text \<open>
  C2: after one call of \<open>increment_login_failure_counter\<close> on an unlocked account,
  \<open>account_locked\<close> is true exactly when the counter written by the call reaches
  \<open>max_retries\<close>. The code decides on \<^verbatim>\<open>current_count\<close>, which the two branches
  that start a fresh window leave at the value read before the call. With
  \<^verbatim>\<open>MAX_PASSWORD_RETRIES = 1\<close> the first failure of \<open>alice\<close> writes the counter 1 and
  does not lock; with the default 5, a failure of an unlocked account whose expired
  window had counted 5 writes the counter 1 and locks.
\<close>

theorem increment_locks_on_stale_count:
  "find (\<lambda>a. id' a = 1)
     (administrators (snd (increment_login_failure_counter strict_service 1000000 1 example_db)))
     = Some (alice\<lparr>consecutive_failed_logins := 1, failed_login_starttime := Some 1000000\<rparr>)
   \<and> account_locked alice = False
   \<and> MAX_PASSWORD_RETRIES strict_service = 1
   \<and> find (\<lambda>a. id' a = 3)
       (administrators (snd (increment_login_failure_counter default_service 601000001 3
          (example_db\<lparr>administrators := [alice, bob, carol\<lparr>consecutive_failed_logins := 5\<rparr>]\<rparr>))))
       = Some (carol\<lparr>consecutive_failed_logins := 1, failed_login_starttime := Some 601000001,
                    account_locked := True\<rparr>)
   \<and> MAX_PASSWORD_RETRIES default_service = 5"
  by (simp add: increment_login_failure_counter_def priv_get_admin_by_id_def
      crud_get_administrator_def crud_update_administrator_def apply_update_def
      timedelta_minutes_def example_db_def alice_def bob_def carol_def
      strict_service_def default_service_def)



text \<open>
  C5: for a locked administrator, \<open>verify_login_credentials\<close> returns none for every
  candidate password, the correct one included. The only call it makes to the persistence
  layer is the read by username: no update is made, and every administrator row, with its
  counter, start time and lock flag, is as before.
\<close>

theorem verify_login_locked_account:
  assumes "find (\<lambda>a. username a = name) (administrators db) = Some admin"
    and "account_locked admin"
  shows "verify_login_credentials self sha256 now name password db
           = (Inr None, db\<lparr>calls := calls db @ [GetAdministratorByUsername name]\<rparr>)"
  using assms
  by (simp add: verify_login_credentials_def priv_get_admin_by_username_def
      crud_get_administrator_by_username_def)

theorem verify_login_locked_account_witness:
  "\<forall>(sha256 :: string \<Rightarrow> digest) password.
     find (\<lambda>a. username a = ''bob'') (administrators example_db) = Some bob
     \<and> account_locked bob
     \<and> verify_login_credentials default_service sha256 601000001 ''bob'' password example_db
         = (Inr None, example_db\<lparr>calls := [GetAdministratorByUsername ''bob'']\<rparr>)"
proof (intro allI)
  fix sha256 :: "string \<Rightarrow> digest" and password :: string
  have f: "find (\<lambda>a. username a = ''bob'') (administrators example_db) = Some bob"
    by (simp add: example_db_def alice_def bob_def carol_def)
  have l: "account_locked bob"
    by (simp add: bob_def)
  have "calls example_db = []"
    by (simp add: example_db_def)
  with verify_login_locked_account [OF f l, of default_service sha256 601000001 password] f l
  show "find (\<lambda>a. username a = ''bob'') (administrators example_db) = Some bob
     \<and> account_locked bob
     \<and> verify_login_credentials default_service sha256 601000001 ''bob'' password example_db
         = (Inr None, example_db\<lparr>calls := [GetAdministratorByUsername ''bob'']\<rparr>)"
    by simp
qed

text \<open>
  C8: for an administrator that exists, \<open>reset_login_failure_counters\<close> makes a single
  update call, which sets \<open>consecutive_failed_logins\<close> to 0 and
  \<open>failed_login_starttime\<close> to null; \<open>account_locked\<close>, every other field of the
  administrator and every other row are unchanged.
\<close>

theorem reset_login_failure_counters_frame:
  assumes "find (\<lambda>a. id' a = aid) (administrators db) = Some admin"
  shows "\<exists>pre post. administrators db = pre @ admin # post
           \<and> reset_login_failure_counters aid db =
               (Inr (), db\<lparr>administrators :=
                           pre @ admin\<lparr>consecutive_failed_logins := 0,
                                        failed_login_starttime := None\<rparr> # post,
                          calls := calls db @ [UpdateAdministrator aid
                            \<lparr>ud_consecutive_failed_logins = Some 0,
                             ud_failed_login_starttime = Some None,
                             ud_account_locked = None\<rparr>]\<rparr>)"
proof -
  let ?ud = "\<lparr>ud_consecutive_failed_logins = Some 0, ud_failed_login_starttime = Some None,
              ud_account_locked = None\<rparr>"
  from update_row_split [OF assms, of ?ud] obtain pre post where
    rows: "administrators db = pre @ admin # post"
    and upd: "update_row aid ?ud (administrators db) = pre @ apply_update ?ud admin # post"
    by blast
  have "apply_update ?ud admin
      = admin\<lparr>consecutive_failed_logins := 0, failed_login_starttime := None\<rparr>"
    by (simp add: apply_update_def)
  with upd reset_found [OF assms] have "reset_login_failure_counters aid db =
      (Inr (), db\<lparr>administrators :=
                  pre @ admin\<lparr>consecutive_failed_logins := 0,
                               failed_login_starttime := None\<rparr> # post,
                 calls := calls db @ [UpdateAdministrator aid ?ud]\<rparr>)"
    by simp
  with rows show ?thesis by blast
qed

theorem reset_login_failure_counters_frame_witness:
  "find (\<lambda>a. id' a = 2) (administrators example_db) = Some bob
   \<and> account_locked bob
   \<and> (\<exists>pre post. administrators example_db = pre @ bob # post
        \<and> reset_login_failure_counters 2 example_db =
            (Inr (), example_db\<lparr>administrators :=
                       pre @ bob\<lparr>consecutive_failed_logins := 0,
                                  failed_login_starttime := None\<rparr> # post,
                     calls := calls example_db @ [UpdateAdministrator 2
                       \<lparr>ud_consecutive_failed_logins = Some 0,
                        ud_failed_login_starttime = Some None,
                        ud_account_locked = None\<rparr>]\<rparr>))"
proof -
  have f: "find (\<lambda>a. id' a = 2) (administrators example_db) = Some bob"
    by (simp add: example_db_def alice_def bob_def carol_def)
  have l: "account_locked bob"
    by (simp add: bob_def)
  from reset_login_failure_counters_frame [OF f] f l show ?thesis
    by blast
qed

subsection \<open>Runs of failed logins\<close>

text \<open>One call, for an administrator that exists: the row afterwards.\<close>

lemma increment_step:
  assumes found: "find (\<lambda>a. id' a = aid) (administrators db) = Some admin"
  shows "\<exists>admin'. find (\<lambda>a. id' a = aid)
             (administrators (snd (increment_login_failure_counter self now aid db))) = Some admin'
     \<and> consecutive_failed_logins admin' =
         (case failed_login_starttime admin of None \<Rightarrow> 1
          | Some t0 \<Rightarrow> if now - t0 > timedelta_minutes (PASSWORD_RETRIES_TIME_WINDOW_MINUTES self)
                      then 1 else consecutive_failed_logins admin + 1)
     \<and> failed_login_starttime admin' =
         (case failed_login_starttime admin of None \<Rightarrow> Some now
          | Some t0 \<Rightarrow> if now - t0 > timedelta_minutes (PASSWORD_RETRIES_TIME_WINDOW_MINUTES self)
                      then Some now else Some t0)
     \<and> account_locked admin' =
         (account_locked admin \<or>
          MAX_PASSWORD_RETRIES self \<le>
            (case failed_login_starttime admin of None \<Rightarrow> consecutive_failed_logins admin
             | Some t0 \<Rightarrow> if now - t0 > timedelta_minutes (PASSWORD_RETRIES_TIME_WINDOW_MINUTES self)
                      then consecutive_failed_logins admin else consecutive_failed_logins admin + 1))"
  using found
  by (auto simp: increment_found [OF found] find_update_row Let_def apply_update_def
      split: option.splits)

lemma failed_logins_in_window:
  assumes "find (\<lambda>a. id' a = aid) (administrators db) = Some admin"
    and "failed_login_starttime admin = Some t0"
    and "\<forall>t\<in>set ts. t - t0 \<le> timedelta_minutes (PASSWORD_RETRIES_TIME_WINDOW_MINUTES self)"
  shows "\<exists>admin'. find (\<lambda>a. id' a = aid) (administrators (failed_logins self aid ts db)) = Some admin'
     \<and> consecutive_failed_logins admin' = consecutive_failed_logins admin + int (length ts)
     \<and> failed_login_starttime admin' = Some t0
     \<and> account_locked admin' =
         (account_locked admin
          \<or> (ts \<noteq> [] \<and> MAX_PASSWORD_RETRIES self \<le> consecutive_failed_logins admin + int (length ts)))"
  using assms
proof (induction ts arbitrary: db admin)
  case Nil
  then show ?case by simp
next
  case (Cons t ts)
  let ?db1 = "snd (increment_login_failure_counter self t aid db)"
  from Cons.prems have t: "\<not> t - t0 > timedelta_minutes (PASSWORD_RETRIES_TIME_WINDOW_MINUTES self)"
    by simp
  from increment_step [OF Cons.prems(1), of self t] Cons.prems(2) t
  obtain admin1 where
    f1: "find (\<lambda>a. id' a = aid) (administrators ?db1) = Some admin1"
    and c1: "consecutive_failed_logins admin1 = consecutive_failed_logins admin + 1"
    and s1: "failed_login_starttime admin1 = Some t0"
    and l1: "account_locked admin1 =
         (account_locked admin \<or> MAX_PASSWORD_RETRIES self \<le> consecutive_failed_logins admin + 1)"
    by auto
  from Cons.prems have w: "\<forall>t\<in>set ts. t - t0 \<le> timedelta_minutes (PASSWORD_RETRIES_TIME_WINDOW_MINUTES self)"
    by simp
  from Cons.IH [OF f1 s1 w] obtain admin' where
    f: "find (\<lambda>a. id' a = aid) (administrators (failed_logins self aid ts ?db1)) = Some admin'"
    and c: "consecutive_failed_logins admin' = consecutive_failed_logins admin1 + int (length ts)"
    and s: "failed_login_starttime admin' = Some t0"
    and l: "account_locked admin' =
         (account_locked admin1
          \<or> (ts \<noteq> [] \<and> MAX_PASSWORD_RETRIES self \<le> consecutive_failed_logins admin1 + int (length ts)))"
    by blast
  have "account_locked admin' =
         (account_locked admin
          \<or> MAX_PASSWORD_RETRIES self \<le> consecutive_failed_logins admin + int (length (t # ts)))"
    using l l1 c1 by (cases ts) auto
  with f c c1 s show ?case by simp
qed

lemma failed_logins_from_zero:
  assumes found: "find (\<lambda>a. id' a = aid) (administrators db) = Some admin"
    and zero: "consecutive_failed_logins admin = 0" "failed_login_starttime admin = None"
      "\<not> account_locked admin"
    and window: "\<forall>t\<in>set ts. t - t1 \<le> timedelta_minutes (PASSWORD_RETRIES_TIME_WINDOW_MINUTES self)"
  shows "\<exists>admin'. find (\<lambda>a. id' a = aid) (administrators (failed_logins self aid (t1 # ts) db)) = Some admin'
     \<and> consecutive_failed_logins admin' = int (length (t1 # ts))
     \<and> failed_login_starttime admin' = Some t1
     \<and> account_locked admin' =
         (MAX_PASSWORD_RETRIES self \<le> 0
          \<or> (ts \<noteq> [] \<and> MAX_PASSWORD_RETRIES self \<le> int (length (t1 # ts))))"
proof -
  let ?db1 = "snd (increment_login_failure_counter self t1 aid db)"
  from increment_step [OF found, of self t1] zero
  obtain admin1 where
    f1: "find (\<lambda>a. id' a = aid) (administrators ?db1) = Some admin1"
    and c1: "consecutive_failed_logins admin1 = 1"
    and s1: "failed_login_starttime admin1 = Some t1"
    and l1: "account_locked admin1 = (MAX_PASSWORD_RETRIES self \<le> 0)"
    by auto
  from failed_logins_in_window [OF f1 s1 window] c1 l1
  show ?thesis by auto
qed

lemma lockout_boundary_from_two:
  assumes "2 \<le> MAX_PASSWORD_RETRIES self"
    and found: "find (\<lambda>a. id' a = aid) (administrators db) = Some admin"
    and zero: "consecutive_failed_logins admin = 0" "failed_login_starttime admin = None"
      "\<not> account_locked admin"
    and window: "\<forall>t\<in>set ts. t - t1 \<le> timedelta_minutes (PASSWORD_RETRIES_TIME_WINDOW_MINUTES self)"
  shows "\<exists>admin'. find (\<lambda>a. id' a = aid) (administrators (failed_logins self aid (t1 # ts) db)) = Some admin'
     \<and> consecutive_failed_logins admin' = int (length (t1 # ts))
     \<and> (int (length (t1 # ts)) = MAX_PASSWORD_RETRIES self \<longrightarrow> account_locked admin')
     \<and> (int (length (t1 # ts)) = MAX_PASSWORD_RETRIES self - 1 \<longrightarrow> \<not> account_locked admin')"
  using failed_logins_from_zero [OF found zero window] assms(1)
  by (cases ts) auto

text \<open>
  C3: from a zeroed administrator state, after exactly \<open>max_retries\<close> calls of
  \<open>increment_login_failure_counter\<close> within one window the account is locked, and
  after \<open>max_retries - 1\<close> calls it is not. \<open>lockout_boundary_from_two\<close> above
  shows this for every \<open>max_retries\<close> of 2 or more. With
  \<^verbatim>\<open>MAX_PASSWORD_RETRIES = 1\<close> the single call that makes up the run starts the
  window and decides on the counter read before the call, which is 0: the counter
  becomes 1 and \<open>alice\<close> is still unlocked.
\<close>

theorem lockout_boundary_single_retry:
  "find (\<lambda>a. id' a = 1) (administrators (failed_logins strict_service 1 [1000000] example_db))
     = Some (alice\<lparr>consecutive_failed_logins := 1, failed_login_starttime := Some 1000000\<rparr>)
   \<and> consecutive_failed_logins alice = 0 \<and> failed_login_starttime alice = None
   \<and> account_locked alice = False
   \<and> int (length [1000000 :: int]) = MAX_PASSWORD_RETRIES strict_service"
  by (simp add: increment_login_failure_counter_def priv_get_admin_by_id_def
      crud_get_administrator_def crud_update_administrator_def apply_update_def
      timedelta_minutes_def example_db_def alice_def bob_def carol_def
      strict_service_def)

subsection \<open>The invariant is preserved\<close>

lemma update_row_list_all:
  assumes "find (\<lambda>a. id' a = aid) rows = Some admin"
    and "list_all P rows \<Longrightarrow> P (apply_update ud admin)"
    and "list_all P rows"
  shows "list_all P (update_row aid ud rows)"
proof -
  from update_row_split [OF assms(1), of ud] obtain pre post where
    "rows = pre @ admin # post" "update_row aid ud rows = pre @ apply_update ud admin # post"
    by blast
  with assms(2,3) show ?thesis by simp
qed

lemma find_Some_list_all: "find Q rows = Some a \<Longrightarrow> list_all P rows \<Longrightarrow> P a"
  by (auto simp: find_Some_iff list_all_length)

lemma increment_not_found:
  assumes "find (\<lambda>a. id' a = aid) (administrators db) = None"
  shows "increment_login_failure_counter self now aid db =
     (Inl (AdministratorNotFoundException (ById aid)),
      db\<lparr>calls := calls db @ [GetAdministrator aid]\<rparr>)"
  using assms
  by (simp add: increment_login_failure_counter_def priv_get_admin_by_id_def
      crud_get_administrator_def)

lemma reset_not_found:
  assumes "find (\<lambda>a. id' a = aid) (administrators db) = None"
  shows "reset_login_failure_counters aid db =
     (Inl (AdministratorNotFoundException (ById aid)),
      db\<lparr>calls := calls db @ [UpdateAdministrator aid
                      \<lparr>ud_consecutive_failed_logins = Some 0, ud_failed_login_starttime = Some None,
                       ud_account_locked = None\<rparr>]\<rparr>)"
  using assms
  by (simp add: reset_login_failure_counters_def crud_update_administrator_def Let_def)

lemma unlock_not_found:
  assumes "find (\<lambda>a. id' a = aid) (administrators db) = None"
  shows "unlock_administrator_account aid db =
     (Inl (AdministratorNotFoundException (ById aid)),
      db\<lparr>calls := calls db @ [GetAdministrator aid]\<rparr>)"
  using assms
  by (simp add: unlock_administrator_account_def priv_get_admin_by_id_def
      crud_get_administrator_def)

lemma unlock_found:
  assumes "find (\<lambda>a. id' a = aid) (administrators db) = Some admin"
  shows "unlock_administrator_account aid db =
     (Inr (), db\<lparr>calls := calls db @ [GetAdministrator aid, UpdateAdministrator aid
                      \<lparr>ud_consecutive_failed_logins = Some 0, ud_failed_login_starttime = Some None,
                       ud_account_locked = Some False\<rparr>],
                  administrators := update_row aid
                      \<lparr>ud_consecutive_failed_logins = Some 0, ud_failed_login_starttime = Some None,
                       ud_account_locked = Some False\<rparr> (administrators db)\<rparr>)"
  using assms
  by (simp add: unlock_administrator_account_def priv_get_admin_by_id_def
      crud_get_administrator_def crud_update_administrator_def Let_def)

lemma new_calls_append [simp]: "new_calls db (db'\<lparr>calls := calls db @ cs\<rparr>) = cs"
  by (simp add: new_calls_def)

lemma new_calls_append_more [simp]:
  "new_calls db (db'\<lparr>calls := calls db @ cs, administrators := rows\<rparr>) = cs"
  by (simp add: new_calls_def)

lemma increment_preserves:
  "preserves_counter_invariant db (snd (increment_login_failure_counter self now aid db))"
proof (cases "find (\<lambda>a. id' a = aid) (administrators db)")
  case None
  then show ?thesis
    by (simp add: increment_not_found preserves_counter_invariant_def)
next
  case (Some admin)
  show ?thesis
    unfolding preserves_counter_invariant_def increment_found [OF Some] Let_def
    using find_Some_list_all [OF Some, of "\<lambda>a. 0 \<le> consecutive_failed_logins a"]
    by (auto intro!: update_row_list_all [OF Some]
        simp: apply_update_def counters_consistent_def resets_together_def
        split: option.splits)
qed

lemma reset_preserves:
  "preserves_counter_invariant db (snd (reset_login_failure_counters aid db))"
proof (cases "find (\<lambda>a. id' a = aid) (administrators db)")
  case None
  then show ?thesis
    by (simp add: reset_not_found preserves_counter_invariant_def resets_together_def)
next
  case (Some admin)
  show ?thesis
    unfolding preserves_counter_invariant_def reset_found [OF Some]
    by (auto intro!: update_row_list_all [OF Some]
        simp: apply_update_def counters_consistent_def resets_together_def)
qed

lemma unlock_preserves:
  "preserves_counter_invariant db (snd (unlock_administrator_account aid db))"
proof (cases "find (\<lambda>a. id' a = aid) (administrators db)")
  case None
  then show ?thesis
    by (simp add: unlock_not_found preserves_counter_invariant_def)
next
  case (Some admin)
  show ?thesis
    unfolding preserves_counter_invariant_def unlock_found [OF Some]
    by (auto intro!: update_row_list_all [OF Some]
        simp: apply_update_def counters_consistent_def resets_together_def)
qed

lemma preserves_after_read:
  assumes "preserves_counter_invariant (db\<lparr>calls := calls db @ [c]\<rparr>) db'"
    and "updates_of [c] = []"
    and "take (Suc (length (calls db))) (calls db') = calls db @ [c]"
  shows "preserves_counter_invariant db db'"
proof -
  have "calls db' = (calls db @ [c]) @ drop (Suc (length (calls db))) (calls db')"
    using assms(3) append_take_drop_id [of "Suc (length (calls db))" "calls db'"] by simp
  then have "drop (length (calls db)) (calls db') = c # drop (Suc (length (calls db))) (calls db')"
    by (metis append.assoc append_Cons append_Nil append_eq_conv_conj)
  then have "updates_of (new_calls db db') = updates_of (new_calls (db\<lparr>calls := calls db @ [c]\<rparr>) db')"
    using assms(2) by (cases c) (simp_all add: new_calls_def)
  with assms(1) show ?thesis
    by (simp add: preserves_counter_invariant_def)
qed


lemma reset_calls_prefix:
  "take (length (calls db)) (calls (snd (reset_login_failure_counters aid db))) = calls db"
  by (cases "find (\<lambda>a. id' a = aid) (administrators db)")
    (simp_all add: reset_not_found reset_found)

lemma increment_calls_prefix:
  "take (length (calls db)) (calls (snd (increment_login_failure_counter self now aid db)))
     = calls db"
  by (cases "find (\<lambda>a. id' a = aid) (administrators db)")
    (simp_all add: increment_not_found increment_found Let_def)

lemma verify_login_state:
  "snd (verify_login_credentials self sha256 now name password db) =
     (let db1 = db\<lparr>calls := calls db @ [GetAdministratorByUsername name]\<rparr>
      in case find (\<lambda>a. username a = name) (administrators db) of
           None \<Rightarrow> db1
         | Some admin \<Rightarrow>
             if account_locked admin then db1
             else if verify_password sha256 (password_hash admin) password (salt admin)
             then snd (reset_login_failure_counters (id' admin) db1)
             else snd (increment_login_failure_counter self now (id' admin) db1))"
  by (auto simp: verify_login_credentials_def priv_get_admin_by_username_def
      crud_get_administrator_by_username_def split: option.splits prod.splits sum.splits)

lemma verify_preserves:
  "preserves_counter_invariant db
     (snd (verify_login_credentials self sha256 now name password db))"
proof -
  let ?c = "GetAdministratorByUsername name"
  let ?db1 = "db\<lparr>calls := calls db @ [?c]\<rparr>"
  have read: "preserves_counter_invariant db ?db1"
    by (simp add: preserves_counter_invariant_def)
  have reset: "preserves_counter_invariant db (snd (reset_login_failure_counters aid ?db1))" for aid
    using reset_preserves [of ?db1 aid] reset_calls_prefix [of ?db1 aid]
    by (intro preserves_after_read [of db ?c]) simp_all
  have incr: "preserves_counter_invariant db
      (snd (increment_login_failure_counter self now aid ?db1))" for aid
    using increment_preserves [of ?db1 self now aid] increment_calls_prefix [of ?db1 self now aid]
    by (intro preserves_after_read [of db ?c]) simp_all
  show ?thesis
    unfolding verify_login_state Let_def
    using read reset incr by (simp split: option.splits)
qed

text \<open>
  C7: each of \<open>increment_login_failure_counter\<close>, \<open>reset_login_failure_counters\<close>,
  \<open>unlock_administrator_account\<close> and \<open>verify_login_credentials\<close> preserves the
  invariant that a positive \<open>consecutive_failed_logins\<close> has a
  \<open>failed_login_starttime\<close>, in every row; and, the counters being counts, every
  update it makes resets the counter to 0 exactly when it clears the start time.
\<close>

theorem failure_tracking_invariant_preserved:
  "preserves_counter_invariant db (snd (increment_login_failure_counter self now aid db))
   \<and> preserves_counter_invariant db (snd (reset_login_failure_counters aid db))
   \<and> preserves_counter_invariant db (snd (unlock_administrator_account aid db))
   \<and> preserves_counter_invariant db
        (snd (verify_login_credentials self sha256 now name password db))"
  using increment_preserves reset_preserves unlock_preserves verify_preserves by blast

theorem failure_tracking_invariant_preserved_witness:
  "list_all counters_consistent (administrators example_db)
   \<and> list_all (\<lambda>a. 0 \<le> consecutive_failed_logins a) (administrators example_db)
   \<and> list_all counters_consistent
        (administrators (snd (increment_login_failure_counter default_service 601000001 3 example_db)))
   \<and> list_all resets_together (updates_of (new_calls example_db
        (snd (increment_login_failure_counter default_service 601000001 3 example_db))))
   \<and> list_all counters_consistent
        (administrators (snd (reset_login_failure_counters 3 example_db)))
   \<and> list_all resets_together (updates_of (new_calls example_db
        (snd (reset_login_failure_counters 3 example_db))))
   \<and> list_all counters_consistent
        (administrators (snd (unlock_administrator_account 3 example_db)))
   \<and> list_all resets_together (updates_of (new_calls example_db
        (snd (unlock_administrator_account 3 example_db))))
   \<and> (\<forall>(sha256 :: string \<Rightarrow> digest) password.
        list_all counters_consistent (administrators
          (snd (verify_login_credentials default_service sha256 601000001 ''carol'' password example_db)))
        \<and> list_all resets_together (updates_of (new_calls example_db
          (snd (verify_login_credentials default_service sha256 601000001 ''carol'' password
                  example_db)))))"
proof -
  have consistent: "list_all counters_consistent (administrators example_db)"
    by (simp add: example_db_def alice_def bob_def carol_def counters_consistent_def)
  have counts: "list_all (\<lambda>a. 0 \<le> consecutive_failed_logins a) (administrators example_db)"
    by (simp add: example_db_def alice_def bob_def carol_def)
  have "list_all counters_consistent
          (administrators (snd (increment_login_failure_counter default_service 601000001 3 example_db)))
      \<and> list_all resets_together (updates_of (new_calls example_db
          (snd (increment_login_failure_counter default_service 601000001 3 example_db))))
      \<and> list_all counters_consistent
          (administrators (snd (reset_login_failure_counters 3 example_db)))
      \<and> list_all resets_together (updates_of (new_calls example_db
          (snd (reset_login_failure_counters 3 example_db))))
      \<and> list_all counters_consistent
          (administrators (snd (unlock_administrator_account 3 example_db)))
      \<and> list_all resets_together (updates_of (new_calls example_db
          (snd (unlock_administrator_account 3 example_db))))
      \<and> list_all counters_consistent (administrators
          (snd (verify_login_credentials default_service sha256 601000001 ''carol'' password example_db)))
      \<and> list_all resets_together (updates_of (new_calls example_db
          (snd (verify_login_credentials default_service sha256 601000001 ''carol'' password
                  example_db))))"
    for sha256 :: "string \<Rightarrow> digest" and password
    using failure_tracking_invariant_preserved
        [of example_db default_service 601000001 3 sha256 "''carol''" password] consistent counts
    unfolding preserves_counter_invariant_def by blast
  with consistent counts show ?thesis by blast
qed

section \<open>Properties of the eligibility checker\<close>

text \<open>
  C1: for every applicant and every bound (scheme, strategy) pair,
  \<open>_calculate_benefits\<close> calls the strategy's \<open>calculate_benefits\<close> if and only if
  the strategy's \<open>check_eligibility\<close> returns eligible. The calls it makes are
  \<open>check_eligibility\<close>, followed by \<open>calculate_benefits\<close> when the verdict is
  eligible and by nothing otherwise. When eligible it returns what \<open>calculate_benefits\<close>
  returns; when \<open>check_eligibility\<close> returns ineligible it returns the empty benefit
  sequence and leaves the world as \<open>check_eligibility\<close> left it (an exception of
  \<open>check_eligibility\<close> is passed on).
\<close>

theorem calculate_benefits_called_iff_eligible:
  "let verdict = check_eligibility strategy applicant w;
       out = priv_calculate_benefits \<lparr>scheme = sch, eligibility_definition = spy strategy\<rparr>
               applicant (w, log)
   in (CalculateBenefits applicant \<in> set (drop (length log) (snd (snd out)))
         \<longleftrightarrow> returns_eligible (fst verdict))
      \<and> snd (snd out) = log @ CheckEligibility applicant #
           (if returns_eligible (fst verdict) then [CalculateBenefits applicant] else [])
      \<and> (returns_eligible (fst verdict) \<longrightarrow>
           (fst out, fst (snd out)) = calculate_benefits strategy applicant (snd verdict))
      \<and> (\<not> returns_eligible (fst verdict) \<longrightarrow>
           fst (snd out) = snd verdict
           \<and> fst out = (case fst verdict of Inl e \<Rightarrow> Inl e | Inr v \<Rightarrow> Inr []))"
  by (auto simp: priv_calculate_benefits_def priv_check_eligibility_def spy_def
      returns_eligible_def Let_def split: prod.splits sum.splits)

theorem calculate_benefits_called_iff_eligible_witness:
  "returns_eligible (fst (check_eligibility income_below_2000 1500 0))
   \<and> priv_calculate_benefits \<lparr>scheme = ''scheme'', eligibility_definition = spy income_below_2000\<rparr>
        1500 (0, [])
      = (Inr [(''grant'', 500)], (1, [CheckEligibility 1500, CalculateBenefits 1500]))
   \<and> \<not> returns_eligible (fst (check_eligibility income_below_2000 2500 0))
   \<and> priv_calculate_benefits \<lparr>scheme = ''scheme'', eligibility_definition = spy income_below_2000\<rparr>
        2500 (0, [])
      = (Inr [], (0, [CheckEligibility 2500]))"
proof -
  have e: "returns_eligible (fst (check_eligibility income_below_2000 1500 0))"
    by (simp add: income_below_2000_def returns_eligible_def)
  have n: "\<not> returns_eligible (fst (check_eligibility income_below_2000 2500 0))"
    by (simp add: income_below_2000_def returns_eligible_def)
  from calculate_benefits_called_iff_eligible [where strategy = income_below_2000 and applicant = 1500 and w = 0
        and log = "[]" and sch = "''scheme''"]
    calculate_benefits_called_iff_eligible [where strategy = income_below_2000 and applicant = 2500 and w = 0
        and log = "[]" and sch = "''scheme''"] e n
  show ?thesis
    by (simp add: Let_def income_below_2000_def prod_eq_iff)
qed


section \<open>Properties of administrator creation\<close>

text \<open>
  C9: when the validation that \<open>create_administrator\<close> runs (on the data with the
  digest and the salt filled in) rejects, \<open>create_administrator\<close> raises
  \<open>InvalidAdministratorDataException\<close> with the validator's message and makes no call
  to the persistence layer: its state, call log included, is unchanged. Data with no
  \<^verbatim>\<open>password_hash\<close> entry raises \<^verbatim>\<open>KeyError\<close> before validation runs, and
  every path that raises leaves the persistence layer untouched.
\<close>

theorem create_administrator_validation_failure:
  "(\<forall>raw_password.
      admin_data ''password_hash'' = Some raw_password
      \<and> \<not> fst (validate_administrator_data
                 (admin_data(''password_hash'' \<mapsto> hash_password sha256 raw_password urandom_hex,
                             ''salt'' \<mapsto> urandom_hex)) True)
      \<longrightarrow> create_administrator sha256 validate_administrator_data urandom_hex admin_data db
            = (Inl (InvalidAdministratorDataException
                     (snd (validate_administrator_data
                        (admin_data(''password_hash'' \<mapsto> hash_password sha256 raw_password urandom_hex,
                                    ''salt'' \<mapsto> urandom_hex)) True))), db))
   \<and> (admin_data ''password_hash'' = None
      \<longrightarrow> create_administrator sha256 validate_administrator_data urandom_hex admin_data db
            = (Inl (KeyError ''password_hash''), db))
   \<and> (isl (fst (create_administrator sha256 validate_administrator_data urandom_hex admin_data db))
      \<longrightarrow> snd (create_administrator sha256 validate_administrator_data urandom_hex admin_data db) = db)"
  by (auto simp: create_administrator_def crud_create_administrator_def Let_def
      split: option.splits prod.splits)

theorem create_administrator_validation_failure_witness:
  "\<forall>sha256 :: string \<Rightarrow> digest.
     [''password_hash'' \<mapsto> ''Secret123''] ''password_hash'' = Some ''Secret123''
     \<and> \<not> fst (requires_username
              [''password_hash'' \<mapsto> hash_password sha256 ''Secret123'' ''00ff'', ''salt'' \<mapsto> ''00ff'']
              True)
     \<and> create_administrator sha256 requires_username ''00ff'' [''password_hash'' \<mapsto> ''Secret123'']
          example_db
        = (Inl (InvalidAdministratorDataException ''username is required''), example_db)"
proof
  fix sha256 :: "string \<Rightarrow> digest"
  let ?data = "[''password_hash'' \<mapsto> ''Secret123'']"
  have k: "?data ''password_hash'' = Some ''Secret123''" by simp
  have v: "requires_username
              (?data(''password_hash'' \<mapsto> hash_password sha256 ''Secret123'' ''00ff'', ''salt'' \<mapsto> ''00ff''))
              True = (False, ''username is required'')"
    by (simp add: requires_username_def)
  from create_administrator_validation_failure [of ?data requires_username sha256 "''00ff''" example_db] k v
  show "?data ''password_hash'' = Some ''Secret123''
     \<and> \<not> fst (requires_username
              [''password_hash'' \<mapsto> hash_password sha256 ''Secret123'' ''00ff'', ''salt'' \<mapsto> ''00ff'']
              True)
     \<and> create_administrator sha256 requires_username ''00ff'' ?data example_db
        = (Inl (InvalidAdministratorDataException ''username is required''), example_db)"
    by simp
qed

end
